theory Spec2Isabelle
  imports Main
begin

section \<open>The HTTP client (services/api.ts)\<close>

text \<open>
  The client wraps an axios instance. A request is described by its method, its URL,
  its body and the private \<open>_retry\<close> flag that the response interceptor sets on the
  configuration of a call it has already replayed.
\<close>

datatype http_method = GET | POST

datatype request_body =
    NoBody
  | Credentials string string
  | PasswordReset string
  | UpdatePassword string string

record request_config =
  req_method :: http_method
  url :: string
  data :: request_body
  retry :: bool

text \<open>\<open>UserOut\<close>, with the two fields the store and the pages read.\<close>

record user_out =
  user_id :: string
  email :: string

text \<open>\<open>LoginRequest\<close> and \<open>SignupRequest\<close> have the same two fields.\<close>

record credentials =
  cred_email :: string
  cred_password :: string

text \<open>
  \<open>ApiResponse<T>\<close>: both fields are optional. An absent \<open>data\<close> (JavaScript
  \<open>undefined\<close>) is \<open>None\<close>.
\<close>

record api_response =
  resp_data :: "user_out option"
  resp_message :: "string option"

record http_response =
  status :: nat
  body :: api_response

text \<open>
  An \<open>AxiosError\<close>: the configuration of the call that failed, the status and the
  \<open>detail\<close> text of the response when there is a response (\<open>error.response?.status\<close>,
  \<open>error.response?.data?.detail\<close>), and the message. A network failure or a timeout
  has no response. \<open>Error\<close> is a plain JavaScript error, which has a message only.
\<close>

record axios_error =
  config :: request_config
  response_status :: "nat option"
  response_detail :: "string option"
  message :: string

datatype js_error = AxiosError axios_error | Error string

text \<open>
  The backend is a black box. What the transport returns for a call is a function of
  all calls sent so far (the last element is the call being answered): it either
  resolves with a response or rejects with a status (if any), a detail text (if any)
  and a message.
\<close>

datatype outcome = Resolve http_response | Reject "nat option" "string option" string

type_synonym http_call = "http_method \<times> string \<times> request_body"

type_synonym backend = "http_call list \<Rightarrow> outcome"

text \<open>
  The part of the browser that the code writes to: the calls that reached the
  transport (oldest first), the events given to \<open>window.dispatchEvent\<close> (oldest
  first) and \<open>document.title\<close>.
\<close>

record env =
  http_log :: "http_call list"
  events :: "string list"
  document_title :: string

definition initial_env :: env where
  "initial_env = \<lparr>http_log = [], events = [], document_title = []\<rparr>"

definition dispatchEvent :: "string \<Rightarrow> env \<Rightarrow> env" where
  "dispatchEvent e w = w\<lparr>events := events w @ [e]\<rparr>"

text \<open>\<open>String.prototype.includes\<close>: the argument occurs somewhere in the string.\<close>

fun starts_with :: "string \<Rightarrow> string \<Rightarrow> bool" where
  "starts_with s [] = True"
| "starts_with [] (p # ps) = False"
| "starts_with (c # cs) (p # ps) = (c = p \<and> starts_with cs ps)"

fun str_includes :: "string \<Rightarrow> string \<Rightarrow> bool" where
  "str_includes [] sub = (sub = [])"
| "str_includes (c # cs) sub = (starts_with (c # cs) sub \<or> str_includes cs sub)"

text \<open>The test of the interceptor that exempts login, signup, logout and refresh.\<close>

definition is_auth_endpoint :: "string \<Rightarrow> bool" where
  "is_auth_endpoint requestUrl \<longleftrightarrow>
     str_includes requestUrl ''/auth/login'' \<or>
     str_includes requestUrl ''/auth/signup'' \<or>
     str_includes requestUrl ''/auth/logout'' \<or>
     str_includes requestUrl ''/auth/refresh''"

definition call_of :: "request_config \<Rightarrow> http_call" where
  "call_of cfg = (req_method cfg, url cfg, data cfg)"

definition post :: "string \<Rightarrow> request_body \<Rightarrow> request_config" where
  "post u b = \<lparr>req_method = POST, url = u, data = b, retry = False\<rparr>"

definition get :: "string \<Rightarrow> request_config" where
  "get u = \<lparr>req_method = GET, url = u, data = NoBody, retry = False\<rparr>"

definition refresh_call :: http_call where
  "refresh_call = (POST, ''/auth/refresh'', NoBody)"

text \<open>
  How many more calls a call can lead to: none for an authentication endpoint, none
  but itself for a replay, which carries the retry flag. The recursion of the client
  ends by this measure.
\<close>

definition rank :: "request_config \<Rightarrow> nat" where
  "rank cfg = (if is_auth_endpoint (url cfg) then 0 else if retry cfg then 1 else 2)"

text \<open>
  \<open>request\<close> is \<open>this.instance(config)\<close>: the call is sent, a fulfilled response
  passes through the first interceptor function unchanged, a rejection goes to the
  second one, \<open>onRejected\<close>. There, \<open>await this.instance.post("/auth/refresh")\<close> is
  inside the \<open>try\<close>, so its rejection reaches the \<open>catch\<close>; the replay is returned
  without \<open>await\<close>, so its outcome, resolved or rejected, is the outcome of the
  interceptor. The refresh call and the replay go through the same instance and so
  through the same interceptor.
\<close>

function request :: "backend \<Rightarrow> request_config \<Rightarrow> env \<Rightarrow> (js_error + http_response) \<times> env"
  and onRejected :: "backend \<Rightarrow> axios_error \<Rightarrow> env \<Rightarrow> (js_error + http_response) \<times> env"
where
  "request be cfg w =
     (let w1 = w\<lparr>http_log := http_log w @ [call_of cfg]\<rparr> in
      case be (http_log w1) of
        Resolve response \<Rightarrow> (Inr response, w1)
      | Reject st det msg \<Rightarrow>
          onRejected be \<lparr>config = cfg, response_status = st,
                          response_detail = det, message = msg\<rparr> w1)"
| "onRejected be err w =
     (let originalRequest = config err;
          requestUrl = url (config err)
      in if is_auth_endpoint requestUrl then (Inl (AxiosError err), w)
         else if response_status err = Some 401 \<and> \<not> retry originalRequest then
           (let originalRequest' = originalRequest\<lparr>retry := True\<rparr> in
            case request be (post ''/auth/refresh'' NoBody) w of
              (Inr _, w') \<Rightarrow> request be originalRequest' w'
            | (Inl refreshError, w') \<Rightarrow>
                (Inl refreshError, dispatchEvent ''auth:logout'' w'))
         else (Inl (AxiosError err), w))"
  by pat_completeness auto
termination
  apply (relation "measure (\<lambda>x. case x of
            Inl (be, cfg, w) \<Rightarrow> 2 * rank cfg + 1
          | Inr (be, err, w) \<Rightarrow> 2 * rank (config err))")
     apply (auto simp: rank_def post_def is_auth_endpoint_def)
  done

text \<open>
  The methods of \<open>ApiClient\<close>. Writes to the console, here and in the store and the
  guard, are left out.
\<close>

definition apiClient_login ::
  "backend \<Rightarrow> credentials \<Rightarrow> env \<Rightarrow> (js_error + user_out option) \<times> env" where
  "apiClient_login be c w =
     (case request be (post ''/auth/login'' (Credentials (cred_email c) (cred_password c))) w of
        (Inr response, w') \<Rightarrow> (Inr (resp_data (body response)), w')
      | (Inl e, w') \<Rightarrow> (Inl e, w'))"

definition apiClient_signup ::
  "backend \<Rightarrow> credentials \<Rightarrow> env \<Rightarrow> (js_error + user_out option) \<times> env" where
  "apiClient_signup be c w =
     (case request be (post ''/auth/signup'' (Credentials (cred_email c) (cred_password c))) w of
        (Inr response, w') \<Rightarrow> (Inr (resp_data (body response)), w')
      | (Inl e, w') \<Rightarrow> (Inl e, w'))"

text \<open>\<open>try { await post } finally { dispatchEvent }\<close>: the event is sent on both paths.\<close>

definition apiClient_logout :: "backend \<Rightarrow> env \<Rightarrow> (js_error + unit) \<times> env" where
  "apiClient_logout be w =
     (case request be (post ''/auth/logout'' NoBody) w of
        (Inr _, w') \<Rightarrow> (Inr (), dispatchEvent ''auth:logout'' w')
      | (Inl e, w') \<Rightarrow> (Inl e, dispatchEvent ''auth:logout'' w'))"

definition apiClient_refreshAccessToken :: "backend \<Rightarrow> env \<Rightarrow> (js_error + unit) \<times> env" where
  "apiClient_refreshAccessToken be w =
     (case request be (post ''/auth/refresh'' NoBody) w of
        (Inr _, w') \<Rightarrow> (Inr (), w')
      | (Inl e, w') \<Rightarrow> (Inl e, w'))"

definition apiClient_requestPasswordReset ::
  "backend \<Rightarrow> string \<Rightarrow> env \<Rightarrow> (js_error + api_response) \<times> env" where
  "apiClient_requestPasswordReset be em w =
     (case request be (post ''/auth/password-reset'' (PasswordReset em)) w of
        (Inr response, w') \<Rightarrow> (Inr (body response), w')
      | (Inl e, w') \<Rightarrow> (Inl e, w'))"

definition apiClient_updatePassword ::
  "backend \<Rightarrow> string \<Rightarrow> string \<Rightarrow> env \<Rightarrow> (js_error + api_response) \<times> env" where
  "apiClient_updatePassword be access_token new_password w =
     (case request be (post ''/auth/update-password'' (UpdatePassword access_token new_password)) w of
        (Inr response, w') \<Rightarrow> (Inr (body response), w')
      | (Inl e, w') \<Rightarrow> (Inl e, w'))"

text \<open>
  \<open>getCurrentUser\<close> throws a plain error when the response has no \<open>data\<close>; its
  \<open>catch\<close> logs and throws the same error again.
\<close>

definition apiClient_getCurrentUser :: "backend \<Rightarrow> env \<Rightarrow> (js_error + user_out) \<times> env" where
  "apiClient_getCurrentUser be w =
     (case request be (get ''/auth/me'') w of
        (Inr response, w') \<Rightarrow>
          (case resp_data (body response) of
             None \<Rightarrow> (Inl (Error ''Invalid response structure from /auth/me''), w')
           | Some u \<Rightarrow> (Inr u, w'))
      | (Inl e, w') \<Rightarrow> (Inl e, w'))"

section \<open>The session store (stores/auth.ts)\<close>

text \<open>
  The five refs of the store. \<open>user\<close> is \<open>None\<close> when the ref holds no identity
  record, that is \<open>null\<close> or, after a login whose response had no \<open>data\<close>,
  \<open>undefined\<close>; the guard tests the ref for truthiness, which does not tell them apart.
\<close>

record auth_store =
  user :: "user_out option"
  isLoading :: bool
  error :: "string option"
  isInitialized :: bool
  hasCredentials :: bool

definition initial_store :: auth_store where
  "initial_store = \<lparr>user = None, isLoading = False, error = None,
                      isInitialized = False, hasCredentials = False\<rparr>"

text \<open>
  \<open>err.response?.data?.detail || err.message || fallback\<close>. JavaScript's \<open>||\<close>
  takes its right operand when the left one is falsy: a detail that is absent, or
  the empty string, gives way to the message, and an empty message to the fallback.
\<close>

fun err_detail :: "js_error \<Rightarrow> string option" where
  "err_detail (AxiosError e) = response_detail e"
| "err_detail (Error m) = None"

fun err_message :: "js_error \<Rightarrow> string" where
  "err_message (AxiosError e) = message e"
| "err_message (Error m) = m"

fun truthy :: "string option \<Rightarrow> bool" where
  "truthy None = False"
| "truthy (Some s) = (s \<noteq> [])"

definition errorMsg :: "js_error \<Rightarrow> string \<Rightarrow> string" where
  "errorMsg err fallback =
     (case err_detail err of
        Some d \<Rightarrow> if d \<noteq> [] then d
                  else if err_message err \<noteq> [] then err_message err else fallback
      | None \<Rightarrow> if err_message err \<noteq> [] then err_message err else fallback)"

text \<open>
  Every operation takes the store and the environment and returns what the caller
  sees (\<open>Inl\<close>: the promise rejects with that error) with the store and the
  environment it leaves. The \<open>finally\<close> block is written out on both paths.
\<close>

definition login ::
  "backend \<Rightarrow> credentials \<Rightarrow> auth_store \<times> env \<Rightarrow> (js_error + user_out option) \<times> auth_store \<times> env" where
  "login be c = (\<lambda>(s, w).
     (let s1 = s\<lparr>isLoading := True, error := None\<rparr> in
      case apiClient_login be c w of
        (Inr response, w') \<Rightarrow>
          (Inr response, s1\<lparr>user := response, hasCredentials := True, isLoading := False\<rparr>, w')
      | (Inl err, w') \<Rightarrow>
          (Inl err, s1\<lparr>error := Some (errorMsg err ''Login failed''), isLoading := False\<rparr>, w')))"

definition signup ::
  "backend \<Rightarrow> credentials \<Rightarrow> auth_store \<times> env \<Rightarrow> (js_error + user_out option) \<times> auth_store \<times> env" where
  "signup be c = (\<lambda>(s, w).
     (let s1 = s\<lparr>isLoading := True, error := None\<rparr> in
      case apiClient_signup be c w of
        (Inr response, w') \<Rightarrow>
          (Inr response, s1\<lparr>user := response, hasCredentials := True, isLoading := False\<rparr>, w')
      | (Inl err, w') \<Rightarrow>
          (Inl err, s1\<lparr>error := Some (errorMsg err ''Signup failed''), isLoading := False\<rparr>, w')))"

definition logout :: "backend \<Rightarrow> auth_store \<times> env \<Rightarrow> (js_error + unit) \<times> auth_store \<times> env" where
  "logout be = (\<lambda>(s, w).
     (let s1 = s\<lparr>isLoading := True, error := None\<rparr> in
      case apiClient_logout be w of
        (Inr _, w') \<Rightarrow>
          (Inr (), s1\<lparr>user := None, hasCredentials := False, isLoading := False\<rparr>, w')
      | (Inl err, w') \<Rightarrow>
          (Inl err, s1\<lparr>user := None, hasCredentials := False, isLoading := False\<rparr>,
           dispatchEvent ''auth:logout'' w')))"

definition fetchCurrentUser ::
  "backend \<Rightarrow> auth_store \<times> env \<Rightarrow> (js_error + user_out option) \<times> auth_store \<times> env" where
  "fetchCurrentUser be = (\<lambda>(s, w).
     (let s1 = s\<lparr>isLoading := True, error := None\<rparr> in
      case apiClient_getCurrentUser be w of
        (Inr response, w') \<Rightarrow>
          (Inr (Some response),
           s1\<lparr>user := Some response, hasCredentials := True,
              isLoading := False, isInitialized := True\<rparr>, w')
      | (Inl err, w') \<Rightarrow>
          (Inr None,
           s1\<lparr>user := None, hasCredentials := False,
              isLoading := False, isInitialized := True\<rparr>, w')))"

definition restoreAuthFromCookies ::
  "backend \<Rightarrow> auth_store \<times> env \<Rightarrow> (js_error + user_out option) \<times> auth_store \<times> env" where
  "restoreAuthFromCookies be = (\<lambda>(s, w).
     (case apiClient_getCurrentUser be w of
        (Inr response, w') \<Rightarrow>
          (Inr (Some response),
           s\<lparr>user := Some response, hasCredentials := True, isInitialized := True\<rparr>, w')
      | (Inl err, w') \<Rightarrow>
          (Inr None,
           s\<lparr>user := None, hasCredentials := False, isInitialized := True\<rparr>, w')))"

definition requestPasswordReset ::
  "backend \<Rightarrow> string \<Rightarrow> auth_store \<times> env \<Rightarrow> (js_error + api_response) \<times> auth_store \<times> env" where
  "requestPasswordReset be em = (\<lambda>(s, w).
     (let s1 = s\<lparr>isLoading := True, error := None\<rparr> in
      case apiClient_requestPasswordReset be em w of
        (Inr r, w') \<Rightarrow> (Inr r, s1\<lparr>isLoading := False\<rparr>, w')
      | (Inl err, w') \<Rightarrow>
          (Inl err, s1\<lparr>error := Some (errorMsg err ''Password reset failed''),
                       isLoading := False\<rparr>, w')))"

definition updatePassword ::
  "backend \<Rightarrow> string \<Rightarrow> auth_store \<times> env \<Rightarrow> (js_error + api_response) \<times> auth_store \<times> env" where
  "updatePassword be newPassword = (\<lambda>(s, w).
     (let s1 = s\<lparr>isLoading := True, error := None\<rparr> in
      case apiClient_updatePassword be [] newPassword w of
        (Inr r, w') \<Rightarrow> (Inr r, s1\<lparr>isLoading := False\<rparr>, w')
      | (Inl err, w') \<Rightarrow>
          (Inl err, s1\<lparr>error := Some (errorMsg err ''Update password failed''),
                       isLoading := False\<rparr>, w')))"

definition clearError :: "auth_store \<times> env \<Rightarrow> auth_store \<times> env" where
  "clearError = (\<lambda>(s, w). (s\<lparr>error := None\<rparr>, w))"

text \<open>The public operations as data, to speak about sequences of them.\<close>

datatype store_op =
    Login credentials
  | Signup credentials
  | Logout
  | FetchCurrentUser
  | RestoreAuthFromCookies
  | RequestPasswordReset string
  | UpdatePasswordOp string
  | ClearError

fun exec :: "backend \<Rightarrow> store_op \<Rightarrow> auth_store \<times> env \<Rightarrow> auth_store \<times> env" where
  "exec be (Login c) sw = snd (login be c sw)"
| "exec be (Signup c) sw = snd (signup be c sw)"
| "exec be Logout sw = snd (logout be sw)"
| "exec be FetchCurrentUser sw = snd (fetchCurrentUser be sw)"
| "exec be RestoreAuthFromCookies sw = snd (restoreAuthFromCookies be sw)"
| "exec be (RequestPasswordReset em) sw = snd (requestPasswordReset be em sw)"
| "exec be (UpdatePasswordOp p) sw = snd (updatePassword be p sw)"
| "exec be ClearError sw = clearError sw"

text \<open>The states a sequence of operations goes through, the starting state first.\<close>

fun trace :: "backend \<Rightarrow> store_op list \<Rightarrow> auth_store \<times> env \<Rightarrow> (auth_store \<times> env) list" where
  "trace be [] sw = [sw]"
| "trace be (x # xs) sw = sw # trace be xs (exec be x sw)"

fun sets_initialized :: "store_op \<Rightarrow> bool" where
  "sets_initialized FetchCurrentUser = True"
| "sets_initialized RestoreAuthFromCookies = True"
| "sets_initialized _ = False"

section \<open>The navigation guard (main.ts)\<close>

text \<open>
  The destination of a navigation, with the fields the guard reads: \<open>to.name\<close>,
  \<open>to.fullPath\<close>, \<open>to.meta.requiresAuth\<close> and \<open>to.meta.title\<close>. The guard is
  modelled for any destination; the destinations the router can hand to it are
  those of the route table below.
\<close>

record route =
  name :: "string option"
  fullPath :: string
  requiresAuth :: bool
  title :: "string option"

text \<open>The argument of \<open>next\<close>: nothing (the navigation goes on), or a location.\<close>

record location =
  loc_name :: string
  loc_query :: "(string \<times> string) list"
  loc_replace :: bool

datatype navigation = Next | NextTo location

definition to_home :: navigation where
  "to_home = NextTo \<lparr>loc_name = ''home'', loc_query = [], loc_replace = True\<rparr>"

definition to_login :: "route \<Rightarrow> navigation" where
  "to_login to = NextTo \<lparr>loc_name = ''login'',
                          loc_query = [(''redirect'', fullPath to)], loc_replace = True\<rparr>"

definition page_title :: "route \<Rightarrow> string" where
  "page_title to =
     (case title to of
        Some t \<Rightarrow> (if t \<noteq> [] then t else ''App'')
      | None \<Rightarrow> ''App'') @ '' - AI Image Gallery''"

text \<open>
  The guard runs after \<open>await authPromise\<close>, so on the state that the restoration
  started at startup has left, or any later one.
\<close>

definition beforeEach ::
  "backend \<Rightarrow> route \<Rightarrow> auth_store \<times> env \<Rightarrow> navigation \<times> auth_store \<times> env" where
  "beforeEach be to = (\<lambda>(s, w0).
     (let w = w0\<lparr>document_title := page_title to\<rparr> in
      if name to = Some ''login'' \<and> user s \<noteq> None then (to_home, s, w)
      else if requiresAuth to then
        (if \<not> hasCredentials s then (to_login to, s, w)
         else if user s \<noteq> None then (Next, s, w)
         else
           (case fetchCurrentUser be (s, w) of
              (Inr (Some u), s', w') \<Rightarrow> (Next, s', w')
            | (Inr None, s', w') \<Rightarrow> (to_login to, s', w')
            | (Inl err, s', w') \<Rightarrow> (to_login to, s'\<lparr>user := None\<rparr>, w')))
      else (Next, s, w)))"

text \<open>Startup: the restoration whose promise every navigation awaits.\<close>

definition authPromise :: "backend \<Rightarrow> (js_error + user_out option) \<times> auth_store \<times> env" where
  "authPromise be = restoreAuthFromCookies be (initial_store, initial_env)"

section \<open>The route table (router/index.ts)\<close>

text \<open>
  The six records of \<open>routes\<close>, with their path, name and meta. The last record
  matches every path that no other record matches; its meta has no \<open>requiresAuth\<close>.
  Nothing adds a route later.
\<close>

record route_record =
  path :: string
  rec_name :: string
  meta_requiresAuth :: "bool option"
  meta_title :: string

definition routes :: "route_record list" where
  "routes =
     [\<lparr>path = ''/login'', rec_name = ''login'',
       meta_requiresAuth = Some False, meta_title = ''Login''\<rparr>,
      \<lparr>path = ''/signup'', rec_name = ''signup'',
       meta_requiresAuth = Some False, meta_title = ''Sign Up''\<rparr>,
      \<lparr>path = ''/forgot-password'', rec_name = ''forgot-password'',
       meta_requiresAuth = Some False, meta_title = ''Forgot Password''\<rparr>,
      \<lparr>path = ''/update-password'', rec_name = ''update-password'',
       meta_requiresAuth = Some True, meta_title = ''Update Password''\<rparr>,
      \<lparr>path = ''/'', rec_name = ''home'',
       meta_requiresAuth = Some True, meta_title = ''Home''\<rparr>,
      \<lparr>path = ''/:pathMatch(.*)*'', rec_name = ''not-found'',
       meta_requiresAuth = None, meta_title = ''404 Not Found''\<rparr>]"

text \<open>
  What the guard gets as \<open>to\<close> when the router has matched a navigation with a
  record: the name and the meta of the record, and the full path that was asked for
  (path, query and hash). The guard tests \<open>to.meta.requiresAuth\<close> for truthiness, so
  an absent value counts as false. Which paths a record matches is not modelled: any
  full path may come with any record.
\<close>

definition resolved :: "route_record \<Rightarrow> string \<Rightarrow> route" where
  "resolved r fp = \<lparr>name = Some (rec_name r), fullPath = fp,
                     requiresAuth = (meta_requiresAuth r = Some True),
                     title = Some (meta_title r)\<rparr>"

definition routable :: "route \<Rightarrow> bool" where
  "routable to \<longleftrightarrow> list_ex (\<lambda>r. to = resolved r (fullPath to)) routes"

section \<open>Auxiliary notions and example backends\<close>

text \<open>The environment once a call has been sent, and the error the transport builds.\<close>

definition sent :: "request_config \<Rightarrow> env \<Rightarrow> env" where
  "sent cfg w = w\<lparr>http_log := http_log w @ [call_of cfg]\<rparr>"

definition rejection :: "request_config \<Rightarrow> nat option \<Rightarrow> string option \<Rightarrow> string \<Rightarrow> js_error" where
  "rejection cfg st det msg =
     AxiosError \<lparr>config = cfg, response_status = st, response_detail = det, message = msg\<rparr>"


text \<open>
  Example backends: one that is unreachable, one whose session and refresh token have
  both expired, and one whose session has expired but can be renewed.
\<close>

definition offline :: backend where
  "offline h = Reject None None ''Network Error''"

definition expired_session :: backend where
  "expired_session h =
     (case rev h of
        [] \<Rightarrow> Reject None None ''Network Error''
      | (m, u, b) # earlier \<Rightarrow>
          if u = ''/auth/refresh''
          then Reject (Some 401) (Some ''Invalid refresh token'') ''Request failed with status code 401''
          else Reject (Some 401) (Some ''Not authenticated'') ''Request failed with status code 401'')"

definition alice :: user_out where
  "alice = \<lparr>user_id = ''u1'', email = ''a@b.com''\<rparr>"

definition renewable_session :: backend where
  "renewable_session h =
     (case rev h of
        [] \<Rightarrow> Reject None None ''Network Error''
      | (m, u, b) # earlier \<Rightarrow>
          if u = ''/auth/refresh''
          then Resolve \<lparr>status = 200, body = \<lparr>resp_data = None, resp_message = None\<rparr>\<rparr>
          else if refresh_call \<in> set earlier
          then Resolve \<lparr>status = 200, body = \<lparr>resp_data = Some alice, resp_message = None\<rparr>\<rparr>
          else Reject (Some 401) (Some ''Not authenticated'') ''Request failed with status code 401'')"

text \<open>
  Example destinations and stores: the home page of the route table, a destination
  named \<open>login\<close> that is marked as protected (the route table has no such record;
  it serves to show that the login rule does not look at \<open>requiresAuth\<close>), and the
  store of a signed-in user.
\<close>

definition home_route :: route where
  "home_route = \<lparr>name = Some ''home'', fullPath = ''/'',
                   requiresAuth = True, title = Some ''Home''\<rparr>"

definition login_route_guarded :: route where
  "login_route_guarded = \<lparr>name = Some ''login'', fullPath = ''/login'',
                            requiresAuth = True, title = Some ''Login''\<rparr>"

definition signed_in :: auth_store where
  "signed_in = \<lparr>user = Some alice, isLoading = False, error = None,
                  isInitialized = True, hasCredentials = True\<rparr>"

definition carol :: credentials where
  "carol = \<lparr>cred_email = ''a@b.com'', cred_password = ''secret''\<rparr>"

definition me_call :: http_call where
  "me_call = (GET, ''/auth/me'', NoBody)"

section \<open>Properties of the HTTP client\<close>

declare request.simps [simp del] onRejected.simps [simp del]

lemma request_resolve:
  "be (http_log w @ [call_of cfg]) = Resolve r \<Longrightarrow> request be cfg w = (Inr r, sent cfg w)"
  by (simp add: request.simps sent_def Let_def)

lemma request_reject_plain:
  assumes "be (http_log w @ [call_of cfg]) = Reject st det msg"
    and "is_auth_endpoint (url cfg) \<or> st \<noteq> Some 401 \<or> retry cfg"
  shows "request be cfg w = (Inl (rejection cfg st det msg), sent cfg w)"
  using assms by (auto simp add: request.simps onRejected.simps sent_def rejection_def Let_def)

lemma request_auth_endpoint:
  assumes "is_auth_endpoint (url cfg)"
  shows "request be cfg w =
     (case be (http_log w @ [call_of cfg]) of
        Resolve r \<Rightarrow> (Inr r, sent cfg w)
      | Reject st det msg \<Rightarrow> (Inl (rejection cfg st det msg), sent cfg w))"
  using assms request_resolve [of be w cfg] request_reject_plain [of be w cfg]
  by (auto split: outcome.splits)

lemma post_refresh_call: "call_of (post ''/auth/refresh'' NoBody) = refresh_call"
  by (simp add: call_of_def post_def refresh_call_def)

lemma refresh_is_auth: "is_auth_endpoint (url (post ''/auth/refresh'' NoBody))"
  by (simp add: is_auth_endpoint_def post_def)

lemma request_refresh:
  "request be (post ''/auth/refresh'' NoBody) w =
     (case be (http_log w @ [refresh_call]) of
        Resolve r \<Rightarrow> (Inr r, w\<lparr>http_log := http_log w @ [refresh_call]\<rparr>)
      | Reject st det msg \<Rightarrow>
          (Inl (rejection (post ''/auth/refresh'' NoBody) st det msg),
           w\<lparr>http_log := http_log w @ [refresh_call]\<rparr>))"
  using request_auth_endpoint [OF refresh_is_auth, of be w]
  by (simp add: post_refresh_call sent_def split: outcome.splits)

lemma onRejected_refresh:
  assumes "\<not> is_auth_endpoint (url cfg)" and "\<not> retry cfg"
  shows "onRejected be \<lparr>config = cfg, response_status = Some 401,
                         response_detail = det, message = msg\<rparr> w =
           (case request be (post ''/auth/refresh'' NoBody) w of
              (Inr _, w') \<Rightarrow> request be (cfg\<lparr>retry := True\<rparr>) w'
            | (Inl refreshError, w') \<Rightarrow> (Inl refreshError, dispatchEvent ''auth:logout'' w'))"
  using assms by (simp add: onRejected.simps Let_def)

lemma request_replay:
  "request be (cfg\<lparr>retry := True\<rparr>) w =
     (case be (http_log w @ [call_of cfg]) of
        Resolve r \<Rightarrow> (Inr r, sent cfg w)
      | Reject st det msg \<Rightarrow> (Inl (rejection (cfg\<lparr>retry := True\<rparr>) st det msg), sent cfg w))"
proof -
  have c: "call_of (cfg\<lparr>retry := True\<rparr>) = call_of cfg"
    by (simp add: call_of_def)
  show ?thesis
    using request_resolve [of be w "cfg\<lparr>retry := True\<rparr>"]
          request_reject_plain [of be w "cfg\<lparr>retry := True\<rparr>"]
    by (auto simp add: c sent_def split: outcome.splits)
qed

text \<open>The whole exchange after a first 401 on a call that is eligible for a retry.\<close>

lemma request_401:
  assumes "\<not> is_auth_endpoint (url cfg)" and "\<not> retry cfg"
    and "be (http_log w @ [call_of cfg]) = Reject (Some 401) det msg"
  shows "request be cfg w =
    (case be (http_log w @ [call_of cfg, refresh_call]) of
       Reject st' det' msg' \<Rightarrow>
         (Inl (rejection (post ''/auth/refresh'' NoBody) st' det' msg'),
          w\<lparr>http_log := http_log w @ [call_of cfg, refresh_call],
            events := events w @ [''auth:logout'']\<rparr>)
     | Resolve ok \<Rightarrow>
         (case be (http_log w @ [call_of cfg, refresh_call, call_of cfg]) of
            Resolve r \<Rightarrow>
              (Inr r, w\<lparr>http_log := http_log w @ [call_of cfg, refresh_call, call_of cfg]\<rparr>)
          | Reject st' det' msg' \<Rightarrow>
              (Inl (rejection (cfg\<lparr>retry := True\<rparr>) st' det' msg'),
               w\<lparr>http_log := http_log w @ [call_of cfg, refresh_call, call_of cfg]\<rparr>)))"
proof -
  have "request be cfg w =
          onRejected be \<lparr>config = cfg, response_status = Some 401,
                          response_detail = det, message = msg\<rparr> (sent cfg w)"
    using assms(3) by (simp add: request.simps Let_def sent_def)
  also have "\<dots> =
          (case request be (post ''/auth/refresh'' NoBody) (sent cfg w) of
              (Inr _, w') \<Rightarrow> request be (cfg\<lparr>retry := True\<rparr>) w'
            | (Inl refreshError, w') \<Rightarrow> (Inl refreshError, dispatchEvent ''auth:logout'' w'))"
    using assms(1,2) by (rule onRejected_refresh)
  finally show ?thesis
    by (simp add: request_refresh request_replay sent_def dispatchEvent_def
             split: outcome.splits)
qed

text \<open>
  C1 (as amended). A call whose URL contains none of the four authentication paths,
  that has not been retried and that is answered with 401: the client sends exactly
  one refresh call. If the refresh call resolves, the client replays the original
  call exactly once, the caller gets the outcome of the replay and no event is
  dispatched. If the refresh call is rejected, there is no replay, \<open>auth:logout\<close> is
  dispatched once, and the caller gets the rejection of the refresh call.
\<close>

theorem C1_refresh_then_replay:
  assumes "\<not> is_auth_endpoint (url cfg)" and "\<not> retry cfg"
    and "be (http_log w @ [call_of cfg]) = Reject (Some 401) det msg"
  shows "request be cfg w =
    (case be (http_log w @ [call_of cfg, refresh_call]) of
       Reject st' det' msg' \<Rightarrow>
         (Inl (rejection (post ''/auth/refresh'' NoBody) st' det' msg'),
          w\<lparr>http_log := http_log w @ [call_of cfg, refresh_call],
            events := events w @ [''auth:logout'']\<rparr>)
     | Resolve ok \<Rightarrow>
         (case be (http_log w @ [call_of cfg, refresh_call, call_of cfg]) of
            Resolve r \<Rightarrow>
              (Inr r, w\<lparr>http_log := http_log w @ [call_of cfg, refresh_call, call_of cfg]\<rparr>)
          | Reject st' det' msg' \<Rightarrow>
              (Inl (rejection (cfg\<lparr>retry := True\<rparr>) st' det' msg'),
               w\<lparr>http_log := http_log w @ [call_of cfg, refresh_call, call_of cfg]\<rparr>)))"
  using assms by (rule request_401)

theorem C1_refresh_then_replay_witness:
  "\<not> is_auth_endpoint (url (get ''/auth/me'')) \<and> \<not> retry (get ''/auth/me'') \<and>
   renewable_session (http_log initial_env @ [call_of (get ''/auth/me'')]) =
     Reject (Some 401) (Some ''Not authenticated'') ''Request failed with status code 401'' \<and>
   request renewable_session (get ''/auth/me'') initial_env =
     (Inr \<lparr>status = 200, body = \<lparr>resp_data = Some alice, resp_message = None\<rparr>\<rparr>,
      \<lparr>http_log = [(GET, ''/auth/me'', NoBody), refresh_call, (GET, ''/auth/me'', NoBody)],
        events = [], document_title = []\<rparr>)"
  using C1_refresh_then_replay [of "get ''/auth/me''" renewable_session initial_env
          "Some ''Not authenticated''" "''Request failed with status code 401''"]
  by (simp add: is_auth_endpoint_def get_def renewable_session_def initial_env_def
        call_of_def refresh_call_def)

text \<open>
  C1 as stated fails: when the refresh call is rejected, the caller does not get the
  failure of the original call (the 401 of \<open>GET /auth/me\<close>) but the failure of
  \<open>POST /auth/refresh\<close>.
\<close>

theorem C1_refresh_failure_counterexample:
  "\<not> is_auth_endpoint (url (get ''/auth/me'')) \<and> \<not> retry (get ''/auth/me'') \<and>
   expired_session (http_log initial_env @ [call_of (get ''/auth/me'')]) =
     Reject (Some 401) (Some ''Not authenticated'') ''Request failed with status code 401'' \<and>
   fst (request expired_session (get ''/auth/me'') initial_env) =
     Inl (rejection (post ''/auth/refresh'' NoBody) (Some 401) (Some ''Invalid refresh token'')
            ''Request failed with status code 401'') \<and>
   fst (request expired_session (get ''/auth/me'') initial_env) \<noteq>
     Inl (rejection (get ''/auth/me'') (Some 401) (Some ''Not authenticated'')
            ''Request failed with status code 401'')"
  by (simp add: request.simps onRejected.simps Let_def is_auth_endpoint_def get_def post_def
        expired_session_def initial_env_def call_of_def rejection_def dispatchEvent_def)

text \<open>
  On the wire, one call of \<open>getCurrentUser\<close> is \<open>GET /auth/me\<close>, followed at most by
  one refresh call and one replay.
\<close>

lemma getCurrentUser_http_log:
  "http_log (snd (apiClient_getCurrentUser be w)) = http_log w @ [me_call] \<or>
   http_log (snd (apiClient_getCurrentUser be w)) = http_log w @ [me_call, refresh_call] \<or>
   http_log (snd (apiClient_getCurrentUser be w)) = http_log w @ [me_call, refresh_call, me_call]"
proof -
  let ?cfg = "get ''/auth/me''"
  have c: "call_of ?cfg = me_call"
    by (simp add: call_of_def get_def me_call_def)
  have a: "\<not> is_auth_endpoint (url ?cfg)" "\<not> retry ?cfg"
    by (simp_all add: is_auth_endpoint_def get_def)
  have l: "http_log (snd (apiClient_getCurrentUser be w)) = http_log (snd (request be ?cfg w))"
    by (simp add: apiClient_getCurrentUser_def split: prod.splits sum.splits option.splits)
  show ?thesis
  proof (cases "be (http_log w @ [me_call])")
    case (Resolve r)
    then show ?thesis
      using request_resolve [of be w ?cfg r] by (simp add: l c sent_def)
  next
    case (Reject st det msg)
    show ?thesis
    proof (cases "st = Some 401")
      case True
      then show ?thesis
        using request_401 [OF a, of be w det msg] Reject
        by (simp add: l c split: outcome.splits)
    next
      case False
      then show ?thesis
        using request_reject_plain [of be w ?cfg st det msg] Reject
        by (simp add: l c sent_def)
    qed
  qed
qed

section \<open>Properties of the session store\<close>

lemma apiClient_logout_eq:
  "apiClient_logout be w =
     (case be (http_log w @ [(POST, ''/auth/logout'', NoBody)]) of
        Resolve r \<Rightarrow> (Inr (), dispatchEvent ''auth:logout'' (sent (post ''/auth/logout'' NoBody) w))
      | Reject st det msg \<Rightarrow>
          (Inl (rejection (post ''/auth/logout'' NoBody) st det msg),
           dispatchEvent ''auth:logout'' (sent (post ''/auth/logout'' NoBody) w)))"
proof -
  have a: "is_auth_endpoint (url (post ''/auth/logout'' NoBody))"
    by (simp add: is_auth_endpoint_def post_def)
  have c: "call_of (post ''/auth/logout'' NoBody) = (POST, ''/auth/logout'', NoBody)"
    by (simp add: call_of_def post_def)
  show ?thesis
    by (simp add: apiClient_logout_def request_auth_endpoint [OF a] c split: outcome.splits)
qed

text \<open>
  C2. Whatever the backend answers to the logout request (a response, a rejection
  with a status, or a rejection without one such as a timeout), after \<open>logout\<close> the
  user is absent and \<open>hasCredentials\<close> is false. When the request is rejected, the
  caller gets that very rejection, together with the cleared store, and \<open>auth:logout\<close>
  has been dispatched (by the client and again by the store); when it resolves,
  \<open>logout\<close> resolves and \<open>auth:logout\<close> has been dispatched once.
\<close>

theorem C2_logout_always_clears:
  "user (fst (snd (logout be (s, w)))) = None \<and>
   \<not> hasCredentials (fst (snd (logout be (s, w)))) \<and>
   (case be (http_log w @ [(POST, ''/auth/logout'', NoBody)]) of
      Resolve r \<Rightarrow>
        fst (logout be (s, w)) = Inr () \<and>
        events (snd (snd (logout be (s, w)))) = events w @ [''auth:logout'']
    | Reject st det msg \<Rightarrow>
        fst (logout be (s, w)) = Inl (rejection (post ''/auth/logout'' NoBody) st det msg) \<and>
        events (snd (snd (logout be (s, w)))) = events w @ [''auth:logout'', ''auth:logout''])"
  by (simp add: logout_def apiClient_logout_eq dispatchEvent_def sent_def Let_def
        split: outcome.splits)

theorem C2_logout_always_clears_witness:
  "user signed_in = Some alice \<and> hasCredentials signed_in \<and>
   user (fst (snd (logout offline (signed_in, initial_env)))) = None \<and>
   \<not> hasCredentials (fst (snd (logout offline (signed_in, initial_env)))) \<and>
   fst (logout offline (signed_in, initial_env)) =
     Inl (rejection (post ''/auth/logout'' NoBody) None None ''Network Error'') \<and>
   events (snd (snd (logout offline (signed_in, initial_env)))) =
     [''auth:logout'', ''auth:logout'']"
  using C2_logout_always_clears [where be = offline and s = signed_in and w = initial_env]
  by (simp add: offline_def signed_in_def initial_env_def)

text \<open>
  C3. \<open>restoreAuthFromCookies\<close> never rejects. When the identity fetch succeeds it
  returns the identity record, stores it in \<open>user\<close> and sets \<open>hasCredentials\<close>; when
  the fetch fails in any way it returns null, clears \<open>user\<close> and \<open>hasCredentials\<close>.
  Either way \<open>isInitialized\<close> is true afterwards.
\<close>

theorem C3_restore_is_silent:
  "(\<forall>e. fst (restoreAuthFromCookies be (s, w)) \<noteq> Inl e) \<and>
   isInitialized (fst (snd (restoreAuthFromCookies be (s, w)))) \<and>
   (case fst (apiClient_getCurrentUser be w) of
      Inr u \<Rightarrow>
        fst (restoreAuthFromCookies be (s, w)) = Inr (Some u) \<and>
        user (fst (snd (restoreAuthFromCookies be (s, w)))) = Some u \<and>
        hasCredentials (fst (snd (restoreAuthFromCookies be (s, w))))
    | Inl e \<Rightarrow>
        fst (restoreAuthFromCookies be (s, w)) = Inr None \<and>
        user (fst (snd (restoreAuthFromCookies be (s, w)))) = None \<and>
        \<not> hasCredentials (fst (snd (restoreAuthFromCookies be (s, w)))))"
  by (simp add: restoreAuthFromCookies_def split: prod.splits sum.splits)

theorem C3_restore_is_silent_witness:
  "fst (apiClient_getCurrentUser renewable_session initial_env) = Inr alice \<and>
   fst (restoreAuthFromCookies renewable_session (initial_store, initial_env)) = Inr (Some alice) \<and>
   user (fst (snd (restoreAuthFromCookies renewable_session (initial_store, initial_env)))) =
     Some alice \<and>
   hasCredentials (fst (snd (restoreAuthFromCookies renewable_session (initial_store, initial_env)))) \<and>
   isInitialized (fst (snd (restoreAuthFromCookies renewable_session (initial_store, initial_env))))"
proof -
  have g: "fst (apiClient_getCurrentUser renewable_session initial_env) = Inr alice"
    by (simp add: apiClient_getCurrentUser_def request.simps onRejected.simps Let_def
          is_auth_endpoint_def get_def post_def renewable_session_def initial_env_def
          call_of_def refresh_call_def)
  show ?thesis
    using C3_restore_is_silent [where be = renewable_session and s = initial_store
            and w = initial_env] g
    by simp
qed

lemma apiClient_login_eq:
  "apiClient_login be c w =
     (case be (http_log w @ [(POST, ''/auth/login'', Credentials (cred_email c) (cred_password c))]) of
        Resolve r \<Rightarrow>
          (Inr (resp_data (body r)),
           sent (post ''/auth/login'' (Credentials (cred_email c) (cred_password c))) w)
      | Reject st det msg \<Rightarrow>
          (Inl (rejection (post ''/auth/login'' (Credentials (cred_email c) (cred_password c))) st det msg),
           sent (post ''/auth/login'' (Credentials (cred_email c) (cred_password c))) w))"
proof -
  let ?cfg = "post ''/auth/login'' (Credentials (cred_email c) (cred_password c))"
  have a: "is_auth_endpoint (url ?cfg)"
    by (simp add: is_auth_endpoint_def post_def)
  have c: "call_of ?cfg = (POST, ''/auth/login'', Credentials (cred_email c) (cred_password c))"
    by (simp add: call_of_def post_def)
  show ?thesis
    by (simp add: apiClient_login_def request_auth_endpoint [OF a] c split: outcome.splits)
qed

text \<open>
  C8. When the login request is rejected, \<open>login\<close> rejects with that rejection and
  \<open>error\<close> is the detail text of the response if there is one, else the message of
  the error, else \<open>Login failed\<close>. As in the source's \<open>||\<close> chain, a text is there
  when it is not the empty string (\<open>truthy\<close>). When the request resolves, \<open>login\<close>
  returns the \<open>data\<close> of the response, \<open>user\<close> is that record and \<open>hasCredentials\<close>
  is true.
\<close>

theorem C8_login_outcomes:
  "case be (http_log w @ [(POST, ''/auth/login'', Credentials (cred_email c) (cred_password c))]) of
     Resolve r \<Rightarrow>
       fst (login be c (s, w)) = Inr (resp_data (body r)) \<and>
       user (fst (snd (login be c (s, w)))) = resp_data (body r) \<and>
       hasCredentials (fst (snd (login be c (s, w))))
   | Reject st det msg \<Rightarrow>
       fst (login be c (s, w)) =
         Inl (rejection (post ''/auth/login'' (Credentials (cred_email c) (cred_password c)))
                st det msg) \<and>
       error (fst (snd (login be c (s, w)))) =
         Some (if truthy det then the det else if msg \<noteq> [] then msg else ''Login failed'')"
  by (auto simp add: login_def apiClient_login_eq Let_def errorMsg_def rejection_def
        split: outcome.splits option.splits)

theorem C8_login_outcomes_witness:
  "fst (login expired_session carol (initial_store, initial_env)) =
     Inl (rejection (post ''/auth/login'' (Credentials ''a@b.com'' ''secret''))
            (Some 401) (Some ''Not authenticated'') ''Request failed with status code 401'') \<and>
   error (fst (snd (login expired_session carol (initial_store, initial_env)))) =
     Some ''Not authenticated'' \<and>
   error (fst (snd (login offline carol (initial_store, initial_env)))) =
     Some ''Network Error''"
  using C8_login_outcomes [where be = expired_session and w = initial_env and c = carol
                             and s = initial_store]
        C8_login_outcomes [where be = offline and w = initial_env and c = carol
                             and s = initial_store]
  by (simp add: expired_session_def offline_def carol_def initial_env_def)

text \<open>
  C10. When \<open>login\<close> or \<open>signup\<close> rejects, \<open>user\<close>, \<open>hasCredentials\<close> and
  \<open>isInitialized\<close> are what they were before the call: the store differs from the
  one before only in \<open>error\<close> and \<open>isLoading\<close>.
\<close>

theorem C10_failed_login_signup_keep_session:
  "(fst (login be c (s, w)) = Inl e \<longrightarrow>
      user (fst (snd (login be c (s, w)))) = user s \<and>
      hasCredentials (fst (snd (login be c (s, w)))) = hasCredentials s \<and>
      isInitialized (fst (snd (login be c (s, w)))) = isInitialized s \<and>
      fst (snd (login be c (s, w))) =
        s\<lparr>isLoading := False, error := Some (errorMsg e ''Login failed'')\<rparr>) \<and>
   (fst (signup be c (s, w)) = Inl e \<longrightarrow>
      user (fst (snd (signup be c (s, w)))) = user s \<and>
      hasCredentials (fst (snd (signup be c (s, w)))) = hasCredentials s \<and>
      isInitialized (fst (snd (signup be c (s, w)))) = isInitialized s \<and>
      fst (snd (signup be c (s, w))) =
        s\<lparr>isLoading := False, error := Some (errorMsg e ''Signup failed'')\<rparr>)"
  by (auto simp add: login_def signup_def Let_def split: prod.splits sum.splits)

theorem C10_failed_login_signup_keep_session_witness:
  "fst (login offline carol (signed_in, initial_env)) =
     Inl (rejection (post ''/auth/login'' (Credentials ''a@b.com'' ''secret''))
            None None ''Network Error'') \<and>
   user (fst (snd (login offline carol (signed_in, initial_env)))) = Some alice \<and>
   hasCredentials (fst (snd (login offline carol (signed_in, initial_env)))) \<and>
   isInitialized (fst (snd (login offline carol (signed_in, initial_env)))) \<and>
   error (fst (snd (login offline carol (signed_in, initial_env)))) = Some ''Network Error''"
proof -
  have f: "fst (login offline carol (signed_in, initial_env)) =
             Inl (rejection (post ''/auth/login'' (Credentials ''a@b.com'' ''secret''))
                    None None ''Network Error'')"
    by (simp add: login_def apiClient_login_eq offline_def carol_def Let_def)
  show ?thesis
    using C10_failed_login_signup_keep_session
            [where be = offline and c = carol and s = signed_in and w = initial_env
               and e = "rejection (post ''/auth/login'' (Credentials ''a@b.com'' ''secret''))
                          None None ''Network Error''"] f
    by (simp add: signed_in_def errorMsg_def rejection_def)
qed

text \<open>
  How each operation leaves \<open>isLoading\<close>, and what follows for a run of operations
  that starts from a store that is not loading.
\<close>

lemma exec_isLoading:
  "isLoading (fst (exec be x (s, w))) =
     (if x = RestoreAuthFromCookies \<or> x = ClearError then isLoading s else False)"
  by (cases x)
     (auto simp add: login_def signup_def logout_def fetchCurrentUser_def
        restoreAuthFromCookies_def requestPasswordReset_def updatePassword_def
        clearError_def Let_def split: prod.splits sum.splits)

lemma trace_not_loading:
  "\<not> isLoading s \<Longrightarrow>
     map (\<lambda>sw. isLoading (fst sw)) (trace be xs (s, w)) = replicate (Suc (length xs)) False"
proof (induction xs arbitrary: s w)
  case Nil
  then show ?case by simp
next
  case (Cons x xs)
  obtain s' w' where e: "exec be x (s, w) = (s', w')"
    by (cases "exec be x (s, w)")
  have "\<not> isLoading s'"
    using exec_isLoading [of be x s w] e Cons.prems by (simp split: if_splits)
  then show ?case
    using Cons.IH [of s' w'] Cons.prems e by simp
qed

text \<open>
  C9. The program creates the store with \<open>isLoading\<close> false and calls the operations
  from there (\<open>restoreAuthFromCookies\<close> once, first, at startup). In every run of
  public operations from the initial store, with any backend, \<open>isLoading\<close> is false
  after every operation, whether the operation resolved or rejected. Moreover the six
  operations that set \<open>isLoading\<close> (\<open>login\<close>, \<open>signup\<close>, \<open>logout\<close>, \<open>fetchCurrentUser\<close>,
  \<open>requestPasswordReset\<close>, \<open>updatePassword\<close>) end with it false from any store at all,
  also one that a page has put into the loading state before the call.
\<close>

theorem C9_isLoading_false_after:
  "map (\<lambda>sw. isLoading (fst sw)) (trace be xs (initial_store, w)) =
     replicate (Suc (length xs)) False \<and>
   (x \<noteq> RestoreAuthFromCookies \<and> x \<noteq> ClearError \<longrightarrow>
      \<not> isLoading (fst (exec be x (s, w))))"
proof
  have "\<not> isLoading initial_store"
    by (simp add: initial_store_def)
  then show "map (\<lambda>sw. isLoading (fst sw)) (trace be xs (initial_store, w)) =
               replicate (Suc (length xs)) False"
    by (rule trace_not_loading)
next
  show "x \<noteq> RestoreAuthFromCookies \<and> x \<noteq> ClearError \<longrightarrow>
          \<not> isLoading (fst (exec be x (s, w)))"
    by (simp add: exec_isLoading)
qed

theorem C9_isLoading_false_after_witness:
  "map (\<lambda>sw. isLoading (fst sw))
     (trace offline [RestoreAuthFromCookies, Login carol, ClearError, Logout, FetchCurrentUser]
        (initial_store, initial_env)) =
     [False, False, False, False, False, False] \<and>
   Signup carol \<noteq> RestoreAuthFromCookies \<and> Signup carol \<noteq> ClearError \<and>
   isLoading (signed_in\<lparr>isLoading := True\<rparr>) \<and>
   \<not> isLoading (fst (exec offline (Signup carol)
                        (signed_in\<lparr>isLoading := True\<rparr>, initial_env)))"
  using C9_isLoading_false_after
          [where be = offline and w = initial_env and x = "Signup carol"
             and s = "signed_in\<lparr>isLoading := True\<rparr>"
             and xs = "[RestoreAuthFromCookies, Login carol, ClearError, Logout,
                        FetchCurrentUser]"]
  by simp

subsection \<open>The history of \<open>isInitialized\<close>\<close>

lemma exec_isInitialized:
  "isInitialized (fst (exec be x (s, w))) = (isInitialized s \<or> sets_initialized x)"
  by (cases x)
     (auto simp add: login_def signup_def logout_def fetchCurrentUser_def
        restoreAuthFromCookies_def requestPasswordReset_def updatePassword_def
        clearError_def Let_def split: prod.splits sum.splits)

lemma trace_initialized:
  "isInitialized s \<Longrightarrow>
     map (\<lambda>sw. isInitialized (fst sw)) (trace be xs (s, w)) = replicate (Suc (length xs)) True"
proof (induction xs arbitrary: s w)
  case Nil
  then show ?case by simp
next
  case (Cons x xs)
  obtain s' w' where e: "exec be x (s, w) = (s', w')"
    by (cases "exec be x (s, w)")
  have "isInitialized s'"
    using exec_isInitialized [of be x s w] e Cons.prems by simp
  then show ?case
    using Cons.IH [of s' w'] Cons.prems e by simp
qed

lemma trace_uninitialized:
  "\<not> isInitialized s \<Longrightarrow>
     map (\<lambda>sw. isInitialized (fst sw)) (trace be xs (s, w)) =
       replicate (Suc (length (takeWhile (\<lambda>x. \<not> sets_initialized x) xs))) False @
       replicate (length (dropWhile (\<lambda>x. \<not> sets_initialized x) xs)) True"
proof (induction xs arbitrary: s w)
  case Nil
  then show ?case by simp
next
  case (Cons x xs)
  obtain s' w' where e: "exec be x (s, w) = (s', w')"
    by (cases "exec be x (s, w)")
  have i: "isInitialized s' = sets_initialized x"
    using exec_isInitialized [of be x s w] e Cons.prems by simp
  show ?case
  proof (cases "sets_initialized x")
    case True
    then show ?thesis
      using trace_initialized [of s' be xs w'] i e Cons.prems by simp
  next
    case False
    then show ?thesis
      using Cons.IH [of s' w'] i e Cons.prems by simp
  qed
qed

text \<open>
  C7. The program calls \<open>restoreAuthFromCookies\<close> once, at startup, on the initial
  store, and every other call of a store operation comes after it (the guard, the only
  caller of \<open>fetchCurrentUser\<close>, awaits the startup promise first; the pages are
  mounted after the first navigation). In every such run, with any backend and any
  operations after the restoration, \<open>isInitialized\<close> is false at the start, true once
  the restoration attempt has completed, whether it succeeded or failed, and true
  after every later operation: it changes exactly once, there, and never back.
\<close>

theorem C7_isInitialized_once:
  "map (\<lambda>sw. isInitialized (fst sw))
     (trace be (RestoreAuthFromCookies # xs) (initial_store, w)) =
     False # replicate (Suc (length xs)) True"
proof -
  obtain s' w' where e: "exec be RestoreAuthFromCookies (initial_store, w) = (s', w')"
    by (cases "exec be RestoreAuthFromCookies (initial_store, w)")
  have "isInitialized s'"
    using exec_isInitialized [of be RestoreAuthFromCookies initial_store w] e by simp
  then have "map (\<lambda>sw. isInitialized (fst sw)) (trace be xs (s', w')) =
               replicate (Suc (length xs)) True"
    by (rule trace_initialized)
  then show ?thesis
    using e by (simp add: initial_store_def)
qed

theorem C7_isInitialized_once_witness:
  "map (\<lambda>sw. isInitialized (fst sw))
     (trace offline [RestoreAuthFromCookies, Login carol, FetchCurrentUser, Logout]
        (initial_store, initial_env)) =
     [False, True, True, True, True]"
  using C7_isInitialized_once
          [where be = offline and w = initial_env
             and xs = "[Login carol, FetchCurrentUser, Logout]"]
  by simp

section \<open>Properties of the navigation guard\<close>

text \<open>
  C6. A navigation to the destination named \<open>login\<close> while \<open>user\<close> is present is
  sent to \<open>home\<close>, whatever \<open>requiresAuth\<close> and \<open>hasCredentials\<close> are: the rule comes
  before the rules on protected destinations. No call is made and the store is
  unchanged.
\<close>

theorem C6_login_page_when_signed_in:
  assumes "name to = Some ''login''" and "user s \<noteq> None"
  shows "beforeEach be to (s, w) =
           (NextTo \<lparr>loc_name = ''home'', loc_query = [], loc_replace = True\<rparr>,
            s, w\<lparr>document_title := page_title to\<rparr>)"
  using assms by (simp add: beforeEach_def to_home_def Let_def)

theorem C6_login_page_when_signed_in_witness:
  "name login_route_guarded = Some ''login'' \<and> user signed_in \<noteq> None \<and>
   requiresAuth login_route_guarded \<and>
   beforeEach offline login_route_guarded (signed_in, initial_env) =
     (NextTo \<lparr>loc_name = ''home'', loc_query = [], loc_replace = True\<rparr>,
      signed_in, initial_env\<lparr>document_title := ''Login - AI Image Gallery''\<rparr>)"
  using C6_login_page_when_signed_in
          [where to = login_route_guarded and s = signed_in and be = offline
             and w = initial_env]
  by (simp add: login_route_guarded_def signed_in_def page_title_def)

text \<open>
  In the route table the protected destinations are \<open>update-password\<close> and \<open>home\<close>:
  a destination that the router hands to the guard as protected is not the login page.
\<close>

lemma protected_not_login:
  assumes "routable to" and "requiresAuth to"
  shows "name to \<noteq> Some ''login''"
proof -
  obtain r where r: "r \<in> set routes" "to = resolved r (fullPath to)"
    using assms(1) by (auto simp add: routable_def list_ex_iff)
  have "meta_requiresAuth r = Some True"
    using assms(2) r(2) by (metis resolved_def route.select_convs(3))
  then have "rec_name r \<noteq> ''login''"
    using r(1) by (auto simp add: routes_def)
  moreover have "name to = Some (rec_name r)"
    using r(2) by (metis resolved_def route.select_convs(1))
  ultimately show ?thesis by simp
qed

text \<open>
  C4. For every navigation that the router hands to the guard with a destination
  whose meta requires authentication, every store with \<open>hasCredentials\<close> false and
  every backend, the guard redirects to \<open>login\<close> with the query \<open>redirect\<close> equal to
  the full path that was asked for. It makes no call and leaves the store unchanged.
\<close>

theorem C4_no_credentials:
  assumes "routable to" and "requiresAuth to" and "\<not> hasCredentials s"
  shows "beforeEach be to (s, w) =
           (NextTo \<lparr>loc_name = ''login'', loc_query = [(''redirect'', fullPath to)],
                    loc_replace = True\<rparr>,
            s, w\<lparr>document_title := page_title to\<rparr>)"
  using assms protected_not_login [of to]
  by (simp add: beforeEach_def to_login_def Let_def)

theorem C4_no_credentials_witness:
  "routable home_route \<and> requiresAuth home_route \<and> \<not> hasCredentials initial_store \<and>
   beforeEach offline home_route (initial_store, initial_env) =
     (NextTo \<lparr>loc_name = ''login'', loc_query = [(''redirect'', ''/'')], loc_replace = True\<rparr>,
      initial_store, initial_env\<lparr>document_title := ''Home - AI Image Gallery''\<rparr>)"
proof -
  have r: "routable home_route"
    by (simp add: routable_def routes_def resolved_def home_route_def)
  show ?thesis
    using C4_no_credentials
            [where to = home_route and s = initial_store and be = offline and w = initial_env] r
    by (simp add: home_route_def initial_store_def page_title_def)
qed

text \<open>
  The store operations keep \<open>user\<close> and \<open>hasCredentials\<close> together: in a run of store
  operations from the initial store, a user is present only with credentials.
\<close>

lemma exec_user_credentials:
  assumes "user s \<noteq> None \<longrightarrow> hasCredentials s"
  shows "user (fst (exec be x (s, w))) \<noteq> None \<longrightarrow> hasCredentials (fst (exec be x (s, w)))"
  using assms
  by (cases x)
     (auto simp add: login_def signup_def logout_def fetchCurrentUser_def
        restoreAuthFromCookies_def requestPasswordReset_def updatePassword_def
        clearError_def Let_def split: prod.splits sum.splits)

lemma trace_user_credentials:
  "user s \<noteq> None \<longrightarrow> hasCredentials s \<Longrightarrow>
     \<forall>sw \<in> set (trace be xs (s, w)). user (fst sw) \<noteq> None \<longrightarrow> hasCredentials (fst sw)"
proof (induction xs arbitrary: s w)
  case Nil
  then show ?case by simp
next
  case (Cons x xs)
  obtain s' w' where e: "exec be x (s, w) = (s', w')"
    by (cases "exec be x (s, w)")
  have "user s' \<noteq> None \<longrightarrow> hasCredentials s'"
    using exec_user_credentials [OF Cons.prems, of be x w] e by simp
  then show ?case
    using Cons.IH [of s' w'] Cons.prems e by simp
qed

lemma fetchCurrentUser_cases:
  "fetchCurrentUser be (s, w) =
     (case apiClient_getCurrentUser be w of
        (Inr u, w') \<Rightarrow>
          (Inr (Some u),
           s\<lparr>user := Some u, isLoading := False, error := None,
             isInitialized := True, hasCredentials := True\<rparr>, w')
      | (Inl e, w') \<Rightarrow>
          (Inr None,
           s\<lparr>user := None, isLoading := False, error := None,
             isInitialized := True, hasCredentials := False\<rparr>, w'))"
  by (simp add: fetchCurrentUser_def Let_def split: prod.splits sum.splits)

text \<open>
  C5. For every navigation that the router hands to the guard with a destination
  whose meta requires authentication, every store with \<open>hasCredentials\<close> true and
  every backend. If \<open>user\<close> is present the guard lets the navigation go on, with no
  call and the store unchanged. If \<open>user\<close> is absent, the guard leaves the store and
  the environment exactly as one call of \<open>fetchCurrentUser\<close> does; when the identity
  fetch succeeds the navigation goes on with \<open>user\<close> set, and when it fails in any
  way, a thrown error included, \<open>user\<close> is absent, \<open>hasCredentials\<close> is false and the
  navigation is sent to \<open>login\<close> with the query \<open>redirect\<close> equal to the full path
  that was asked for.
\<close>

theorem C5_credentials_present:
  assumes "routable to" and "requiresAuth to" and "hasCredentials s"
  shows "(user s \<noteq> None \<longrightarrow>
            beforeEach be to (s, w) = (Next, s, w\<lparr>document_title := page_title to\<rparr>)) \<and>
         (user s = None \<longrightarrow>
            snd (beforeEach be to (s, w)) =
              snd (fetchCurrentUser be (s, w\<lparr>document_title := page_title to\<rparr>)) \<and>
            (case fst (apiClient_getCurrentUser be (w\<lparr>document_title := page_title to\<rparr>)) of
               Inr u \<Rightarrow>
                 fst (beforeEach be to (s, w)) = Next \<and>
                 user (fst (snd (beforeEach be to (s, w)))) = Some u
             | Inl e \<Rightarrow>
                 fst (beforeEach be to (s, w)) =
                   NextTo \<lparr>loc_name = ''login'', loc_query = [(''redirect'', fullPath to)],
                           loc_replace = True\<rparr> \<and>
                 user (fst (snd (beforeEach be to (s, w)))) = None \<and>
                 \<not> hasCredentials (fst (snd (beforeEach be to (s, w))))))"
  using assms protected_not_login [of to]
  by (auto simp add: beforeEach_def to_login_def Let_def fetchCurrentUser_cases
        split: prod.splits sum.splits)

theorem C5_credentials_present_witness:
  "routable home_route \<and> requiresAuth home_route \<and>
   hasCredentials (signed_in\<lparr>user := None\<rparr>) \<and>
   beforeEach offline home_route (signed_in, initial_env) =
     (Next, signed_in, initial_env\<lparr>document_title := ''Home - AI Image Gallery''\<rparr>) \<and>
   fst (beforeEach renewable_session home_route (signed_in\<lparr>user := None\<rparr>, initial_env)) = Next \<and>
   user (fst (snd (beforeEach renewable_session home_route
                     (signed_in\<lparr>user := None\<rparr>, initial_env)))) = Some alice \<and>
   fst (beforeEach offline home_route (signed_in\<lparr>user := None\<rparr>, initial_env)) =
     NextTo \<lparr>loc_name = ''login'', loc_query = [(''redirect'', ''/'')], loc_replace = True\<rparr> \<and>
   \<not> hasCredentials (fst (snd (beforeEach offline home_route
                                 (signed_in\<lparr>user := None\<rparr>, initial_env))))"
proof -
  let ?w = "initial_env\<lparr>document_title := page_title home_route\<rparr>"
  have r: "routable home_route"
    by (simp add: routable_def routes_def resolved_def home_route_def)
  have g: "fst (apiClient_getCurrentUser renewable_session ?w) = Inr alice"
    by (simp add: apiClient_getCurrentUser_def request.simps onRejected.simps Let_def
          is_auth_endpoint_def get_def post_def renewable_session_def initial_env_def
          call_of_def refresh_call_def)
  have h: "fst (apiClient_getCurrentUser offline ?w) =
             Inl (rejection (get ''/auth/me'') None None ''Network Error'')"
    by (simp add: apiClient_getCurrentUser_def request.simps onRejected.simps Let_def
          is_auth_endpoint_def get_def offline_def rejection_def)
  show ?thesis
    using C5_credentials_present
            [where to = home_route and s = signed_in and be = offline and w = initial_env]
          C5_credentials_present
            [where to = home_route and s = "signed_in\<lparr>user := None\<rparr>"
               and be = renewable_session and w = initial_env]
          C5_credentials_present
            [where to = home_route and s = "signed_in\<lparr>user := None\<rparr>"
               and be = offline and w = initial_env]
          r g h
    by (auto simp add: home_route_def signed_in_def page_title_def fetchCurrentUser_cases
          split: prod.splits sum.splits)
qed

end
